theory Spec2Isabelle
  imports Main "HOL-Library.Word"
begin

section \<open>go-env-validator: data model (types.go)\<close>

text \<open>
  Go strings are byte sequences, modelled as \<^typ>\<open>string\<close>. \<open>type Kind string\<close> is a
  string with six named constants.
\<close>

type_synonym Kind = string

definition KindString :: Kind where "KindString = ''string''"
definition KindInteger :: Kind where "KindInteger = ''integer''"
definition KindFloat :: Kind where "KindFloat = ''float''"
definition KindBoolean :: Kind where "KindBoolean = ''boolean''"
definition KindURL :: Kind where "KindURL = ''url''"
definition KindDuration :: Kind where "KindDuration = ''duration''"

text \<open>
  \<open>AllowedValues []string\<close> may be the nil slice, which \<open>Schema\<close> tells apart from an
  empty one: \<open>None\<close> is nil.
\<close>

record Field =
  Key :: string
  Kind :: Kind
  Required :: bool
  Default :: string
  Description :: string
  AllowedValues :: "string list option"

text \<open>The fields of the other structs carry a suffix, since record fields share one name space.\<close>

record FieldSchema =
  Key_s :: string
  Kind_s :: string
  Required_s :: bool
  Default_s :: string
  Description_s :: string
  AllowedValues_s :: "string list option"

record ValidationError =
  Key_e :: string
  Reason :: string

type_synonym ValidationErrors = "ValidationError list"

text \<open>
  The dynamic types that \<open>parseValue\<close> stores in a \<open>map[string]any\<close>: string, int64,
  float64 (its IEEE-754 bit pattern), bool and time.Duration (int64 nanoseconds).
\<close>

datatype anyval =
    StringVal string
  | Int64Val int
  | Float64Val "64 word"
  | BoolVal bool
  | DurationVal int

record Result =
  values_r :: "string \<rightharpoonup> anyval"

record Validator =
  fields_v :: "Field list"

text \<open>The two errors of package context, and the error values \<open>ValidateMap\<close> returns.\<close>

datatype ctx_error = Canceled | DeadlineExceeded

datatype go_error = ContextErr ctx_error | ValidationErrs ValidationErrors

text \<open>
  A context is read by polling \<open>ctx.Done()\<close>: \<open>ctx k\<close> is what the \<open>k\<close>-th poll of a call
  sees, \<open>None\<close> while the channel is open and \<open>Some e\<close> once it is closed, \<open>e\<close> being
  \<open>ctx.Err()\<close>. A context cancelled before the call has \<open>ctx 0 = Some e\<close>.
\<close>

type_synonym Context = "nat \<Rightarrow> ctx_error option"

section \<open>The Go standard library, as far as the validator calls it\<close>

text \<open>
  The standard library is not part of the repository. \<open>strings.TrimSpace\<close>,
  \<open>strings.Join\<close>, \<open>strconv.ParseInt\<close> in base 10, the \<open>%d\<close> verb and the ASCII parts of
  \<open>strings.ToLower\<close> and \<open>%q\<close> are written out below. What remains (float, URL and
  duration syntax, Unicode case mapping, escaping in \<open>%q\<close>) is a parameter of the model;
  each wrapper writes out the library's answer on the empty string and hands every other
  input to the parameter.
\<close>

record URL =
  Scheme :: string
  Host :: string

record golib =
  unicodeToLower :: "string \<Rightarrow> string"
  parseFloat :: "string \<Rightarrow> 64 word option"
  parseRequestURI :: "string \<Rightarrow> URL option"
  parseDuration :: "string \<Rightarrow> int option"
  quoteEscaped :: "string \<Rightarrow> string"

subsection \<open>strings.TrimSpace\<close>

text \<open>
  White space is \<open>unicode.IsSpace\<close>: the six ASCII characters, U+0085 and U+00A0, and
  U+1680, U+2000 to U+200A, U+2028, U+2029, U+202F, U+205F, U+3000, here in UTF-8.
\<close>

definition space1 :: "string list" where
  "space1 = [[CHR 0x09], [CHR 0x0A], [CHR 0x0B], [CHR 0x0C], [CHR 0x0D], [CHR 0x20]]"

definition space2 :: "string list" where
  "space2 = [[CHR 0xC2, CHR 0x85], [CHR 0xC2, CHR 0xA0]]"

definition space3 :: "string list" where
  "space3 = [[CHR 0xE1, CHR 0x9A, CHR 0x80],
     [CHR 0xE2, CHR 0x80, CHR 0x80], [CHR 0xE2, CHR 0x80, CHR 0x81],
     [CHR 0xE2, CHR 0x80, CHR 0x82], [CHR 0xE2, CHR 0x80, CHR 0x83],
     [CHR 0xE2, CHR 0x80, CHR 0x84], [CHR 0xE2, CHR 0x80, CHR 0x85],
     [CHR 0xE2, CHR 0x80, CHR 0x86], [CHR 0xE2, CHR 0x80, CHR 0x87],
     [CHR 0xE2, CHR 0x80, CHR 0x88], [CHR 0xE2, CHR 0x80, CHR 0x89],
     [CHR 0xE2, CHR 0x80, CHR 0x8A], [CHR 0xE2, CHR 0x80, CHR 0xA8],
     [CHR 0xE2, CHR 0x80, CHR 0xA9], [CHR 0xE2, CHR 0x80, CHR 0xAF],
     [CHR 0xE2, CHR 0x81, CHR 0x9F], [CHR 0xE3, CHR 0x80, CHR 0x80]]"

text \<open>The width in bytes of the white-space rune a string starts with, 0 when there is none.\<close>

definition spaceWidth :: "string \<Rightarrow> nat" where
  "spaceWidth s =
     (if take 1 s \<in> set space1 then 1
      else if take 2 s \<in> set space2 then 2
      else if take 3 s \<in> set space3 then 3
      else 0)"

text \<open>The same for the rune a string ends with.\<close>

definition lastSpaceWidth :: "string \<Rightarrow> nat" where
  "lastSpaceWidth s =
     (if drop (length s - 1) s \<in> set space1 then 1
      else if drop (length s - 2) s \<in> set space2 then 2
      else if drop (length s - 3) s \<in> set space3 then 3
      else 0)"

lemma spaceWidth_le: "spaceWidth s \<le> 3"
  by (simp add: spaceWidth_def)

lemma lastSpaceWidth_le: "lastSpaceWidth s \<le> 3"
  by (simp add: lastSpaceWidth_def)

lemma spaceWidth_Nil [simp]: "spaceWidth [] = 0"
  by (simp add: spaceWidth_def space1_def space2_def space3_def)

lemma lastSpaceWidth_Nil [simp]: "lastSpaceWidth [] = 0"
  by (simp add: lastSpaceWidth_def space1_def space2_def space3_def)

function TrimLeft :: "string \<Rightarrow> string" where
  "TrimLeft s = (if spaceWidth s = 0 then s else TrimLeft (drop (spaceWidth s) s))"
  by pat_completeness auto
termination
proof (relation "measure length")
  show "wf (measure length)" by simp
next
  fix s :: string
  assume w: "spaceWidth s \<noteq> 0"
  then have "s \<noteq> []" by auto
  with w show "(drop (spaceWidth s) s, s) \<in> measure length" by simp
qed

function TrimRight :: "string \<Rightarrow> string" where
  "TrimRight s =
     (if lastSpaceWidth s = 0 then s else TrimRight (take (length s - lastSpaceWidth s) s))"
  by pat_completeness auto
termination
proof (relation "measure length")
  show "wf (measure length)" by simp
next
  fix s :: string
  assume w: "lastSpaceWidth s \<noteq> 0"
  then have "s \<noteq> []" by auto
  with w show "(take (length s - lastSpaceWidth s) s, s) \<in> measure length" by simp
qed

declare TrimLeft.simps [simp del] TrimRight.simps [simp del]

definition TrimSpace :: "string \<Rightarrow> string" where
  "TrimSpace s = TrimRight (TrimLeft s)"

subsection \<open>strings.ToLower, strings.Join\<close>

definition isASCII :: "string \<Rightarrow> bool" where
  "isASCII s = list_all (\<lambda>c. of_char c < (128::nat)) s"

definition lowerByte :: "char \<Rightarrow> char" where
  "lowerByte c =
     (if (65::nat) \<le> of_char c \<and> of_char c \<le> (90::nat) then char_of (of_char c + (32::nat)) else c)"

definition ToLower :: "golib \<Rightarrow> string \<Rightarrow> string" where
  "ToLower L s = (if isASCII s then map lowerByte s else unicodeToLower L s)"

fun Join :: "string list \<Rightarrow> string \<Rightarrow> string" where
  "Join [] sep = []"
| "Join [x] sep = x"
| "Join (x # y # ys) sep = x @ sep @ Join (y # ys) sep"

subsection \<open>fmt verbs\<close>

text \<open>
  \<open>%q\<close> is \<open>strconv.Quote\<close>: printable ASCII other than the double quote and the
  backslash is copied between double quotes; any other string is escaped by the library.
\<close>

definition plainByte :: "char \<Rightarrow> bool" where
  "plainByte c = ((32::nat) \<le> of_char c \<and> of_char c \<le> (126::nat) \<and> c \<noteq> CHR 0x22 \<and> c \<noteq> CHR 0x5C)"

definition Quote :: "golib \<Rightarrow> string \<Rightarrow> string" where
  "Quote L s = (if list_all plainByte s then [CHR 0x22] @ s @ [CHR 0x22] else quoteEscaped L s)"

text \<open>\<open>%d\<close> of a slice length.\<close>

fun showNat :: "nat \<Rightarrow> string" where
  "showNat n =
     (if n < 10 then [''0123456789'' ! n]
      else showNat (n div 10) @ [''0123456789'' ! (n mod 10)])"

declare showNat.simps [simp del]

subsection \<open>strconv.ParseInt(s, 10, 64)\<close>

definition digitVal :: "char \<Rightarrow> nat option" where
  "digitVal c =
     (if (48::nat) \<le> of_char c \<and> of_char c \<le> (57::nat) then Some (of_char c - 48) else None)"

text \<open>
  \<open>ParseUint\<close> in base 10, without the bound of 64 bits: the accumulator is unbounded and
  \<open>ParseInt\<close> below rejects every value outside int64, as the library does with its range
  error.
\<close>

fun parseDigits :: "nat \<Rightarrow> string \<Rightarrow> nat option" where
  "parseDigits acc [] = Some acc"
| "parseDigits acc (c # cs) =
     (case digitVal c of None \<Rightarrow> None | Some d \<Rightarrow> parseDigits (acc * 10 + d) cs)"

definition ParseUint :: "string \<Rightarrow> nat option" where
  "ParseUint s = (if s = [] then None else parseDigits 0 s)"

definition ParseInt :: "string \<Rightarrow> int option" where
  "ParseInt s =
     (if s = [] then None
      else let neg = (hd s = CHR ''-'');
               s' = (if hd s = CHR ''+'' \<or> hd s = CHR ''-'' then tl s else s)
           in case ParseUint s' of
                None \<Rightarrow> None
              | Some un \<Rightarrow>
                  if \<not> neg \<and> un \<ge> 2 ^ 63 then None
                  else if neg \<and> un > 2 ^ 63 then None
                  else Some (if neg then - int un else int un))"

subsection \<open>strconv.ParseFloat, url.ParseRequestURI, time.ParseDuration\<close>

text \<open>Each of the three returns an error on the empty string.\<close>

definition ParseFloat :: "golib \<Rightarrow> string \<Rightarrow> 64 word option" where
  "ParseFloat L s = (if s = [] then None else parseFloat L s)"

definition ParseRequestURI :: "golib \<Rightarrow> string \<Rightarrow> URL option" where
  "ParseRequestURI L s = (if s = [] then None else parseRequestURI L s)"

definition ParseDuration :: "golib \<Rightarrow> string \<Rightarrow> int option" where
  "ParseDuration L s = (if s = [] then None else parseDuration L s)"

section \<open>The validator (validator.go)\<close>

subsection \<open>parseValue\<close>

text \<open>
  \<open>parseValue\<close> returns a value or a \<open>*ValidationError\<close>, never both: \<open>Inl\<close> is the
  error.
\<close>

definition parseValue :: "golib \<Rightarrow> string \<Rightarrow> Kind \<Rightarrow> string \<Rightarrow> ValidationError + anyval" where
  "parseValue L key kind raw =
     (if kind = KindString then Inr (StringVal raw)
      else if kind = KindInteger then
        (case ParseInt (TrimSpace raw) of
           None \<Rightarrow> Inl \<lparr>Key_e = key, Reason = ''cannot parse '' @ Quote L raw @ '' as an integer''\<rparr>
         | Some n \<Rightarrow> Inr (Int64Val n))
      else if kind = KindFloat then
        (case ParseFloat L (TrimSpace raw) of
           None \<Rightarrow> Inl \<lparr>Key_e = key, Reason = ''cannot parse '' @ Quote L raw @ '' as a float''\<rparr>
         | Some x \<Rightarrow> Inr (Float64Val x))
      else if kind = KindBoolean then
        (let normalized = ToLower L (TrimSpace raw)
         in if normalized = ''true'' \<or> normalized = ''1'' \<or> normalized = ''yes''
              then Inr (BoolVal True)
            else if normalized = ''false'' \<or> normalized = ''0'' \<or> normalized = ''no''
              then Inr (BoolVal False)
            else Inl \<lparr>Key_e = key, Reason = ''cannot parse '' @ Quote L raw
                   @ '' as a boolean; accepted values are true, false, 1, 0, yes, no''\<rparr>)
      else if kind = KindURL then
        (let trimmed = TrimSpace raw
         in case ParseRequestURI L trimmed of
              None \<Rightarrow> Inl \<lparr>Key_e = key, Reason = ''cannot parse '' @ Quote L raw
                     @ '' as an absolute URL with scheme and host''\<rparr>
            | Some u \<Rightarrow>
                if Scheme u = [] \<or> Host u = []
                  then Inl \<lparr>Key_e = key, Reason = ''cannot parse '' @ Quote L raw
                         @ '' as an absolute URL with scheme and host''\<rparr>
                else Inr (StringVal trimmed))
      else if kind = KindDuration then
        (case ParseDuration L (TrimSpace raw) of
           None \<Rightarrow> Inl \<lparr>Key_e = key, Reason = ''cannot parse '' @ Quote L raw
                  @ '' as a duration; use Go duration syntax such as 5s, 1m30s, or 2h''\<rparr>
         | Some d \<Rightarrow> Inr (DurationVal d))
      else Inl \<lparr>Key_e = key, Reason = ''unknown kind '' @ Quote L kind\<rparr>)"

subsection \<open>The body of the loop of ValidateMap\<close>

text \<open>\<open>len\<close> and \<open>range\<close> treat the nil slice as the empty one.\<close>

definition sliceOf :: "'a list option \<Rightarrow> 'a list" where
  "sliceOf xs = (case xs of None \<Rightarrow> [] | Some ys \<Rightarrow> ys)"

text \<open>The inner loop that sets \<open>found\<close>.\<close>

fun found :: "string \<Rightarrow> string list \<Rightarrow> bool" where
  "found raw [] = False"
| "found raw (allowed # rest) = (if raw = allowed then True else found raw rest)"

text \<open>
  Lines 161 to 171: the raw value of a field, or the failure of a required field. \<open>Inl\<close>
  is an append to \<open>errs\<close> followed by \<open>continue\<close>.
\<close>

definition resolveRaw :: "(string \<rightharpoonup> string) \<Rightarrow> Field \<Rightarrow> ValidationError + string" where
  "resolveRaw env f =
     (let present = (env (Key f) \<noteq> None);
          raw = (case env (Key f) of None \<Rightarrow> [] | Some v \<Rightarrow> v)
      in if \<not> present \<or> raw = [] then
           (if Required f \<and> Default f = []
              then Inl \<lparr>Key_e = Key f, Reason = ''required variable is missing or empty''\<rparr>
            else Inr (Default f))
         else Inr raw)"

text \<open>Lines 173 to 194: the allowed values, then the coercion.\<close>

definition checkRaw :: "golib \<Rightarrow> Field \<Rightarrow> Kind \<Rightarrow> string \<Rightarrow> ValidationError + anyval" where
  "checkRaw L f kind raw =
     (if length (sliceOf (AllowedValues f)) > 0 \<and> \<not> found raw (sliceOf (AllowedValues f))
        then Inl \<lparr>Key_e = Key f,
               Reason = ''value '' @ Quote L raw @ '' is not one of the allowed values: ''
                 @ Join (sliceOf (AllowedValues f)) '', ''\<rparr>
      else parseValue L (Key f) kind raw)"

definition validateField :: "golib \<Rightarrow> (string \<rightharpoonup> string) \<Rightarrow> Field \<Rightarrow> ValidationError + anyval" where
  "validateField L env f =
     (let kind = (if Kind f = [] then KindString else Kind f)
      in case resolveRaw env f of
           Inl err \<Rightarrow> Inl err
         | Inr raw \<Rightarrow> checkRaw L f kind raw)"

subsection \<open>ValidateMap\<close>

text \<open>
  The loop over \<open>v.fields\<close>, with the locals \<open>errs\<close> and \<open>values\<close> passed along; \<open>k\<close>
  counts the polls of the context. \<open>Inl\<close> is the return from inside the \<open>select\<close>.
\<close>

fun validateLoop ::
  "golib \<Rightarrow> Context \<Rightarrow> (string \<rightharpoonup> string) \<Rightarrow> nat \<Rightarrow> Field list \<Rightarrow> ValidationErrors
     \<Rightarrow> (string \<rightharpoonup> anyval) \<Rightarrow> ctx_error + (ValidationErrors \<times> (string \<rightharpoonup> anyval))" where
  "validateLoop L ctx env k [] errs vals = Inr (errs, vals)"
| "validateLoop L ctx env k (f # fs) errs vals =
     (case ctx k of
        Some e \<Rightarrow> Inl e
      | None \<Rightarrow>
          (case validateField L env f of
             Inl err \<Rightarrow> validateLoop L ctx env (Suc k) fs (errs @ [err]) vals
           | Inr parsed \<Rightarrow> validateLoop L ctx env (Suc k) fs errs (vals(Key f \<mapsto> parsed))))"

text \<open>The pair \<open>(*Result, error)\<close>: \<open>None\<close> is nil.\<close>

definition ValidateMap ::
  "golib \<Rightarrow> Validator \<Rightarrow> Context \<Rightarrow> (string \<rightharpoonup> string) \<Rightarrow> Result option \<times> go_error option" where
  "ValidateMap L v ctx env =
     (case validateLoop L ctx env 0 (fields_v v) [] Map.empty of
        Inl e \<Rightarrow> (None, Some (ContextErr e))
      | Inr (errs, vals) \<Rightarrow>
          if length errs > 0 then (None, Some (ValidationErrs errs))
          else (Some \<lparr>values_r = vals\<rparr>, None))"

definition New :: "Field list \<Rightarrow> Validator" where
  "New fs = \<lparr>fields_v = fs\<rparr>"

section \<open>Schema (schema.go)\<close>

definition zeroFieldSchema :: FieldSchema where
  "zeroFieldSchema = \<lparr>Key_s = [], Kind_s = [], Required_s = False, Default_s = [],
     Description_s = [], AllowedValues_s = None\<rparr>"

definition schemaOf :: "Field \<Rightarrow> FieldSchema" where
  "schemaOf f =
     (let kind = (if Kind f = [] then KindString else Kind f);
          allowed = (if AllowedValues f = None then Some [] else AllowedValues f)
      in \<lparr>Key_s = Key f, Kind_s = kind, Required_s = Required f, Default_s = Default f,
          Description_s = Description f, AllowedValues_s = allowed\<rparr>)"

text \<open>The loop writes \<open>out[i]\<close> for every index \<open>i\<close> of \<open>v.fields\<close>.\<close>

fun schemaLoop :: "nat \<Rightarrow> Field list \<Rightarrow> FieldSchema list \<Rightarrow> FieldSchema list" where
  "schemaLoop i [] out = out"
| "schemaLoop i (f # fs) out = schemaLoop (Suc i) fs (out[i := schemaOf f])"

definition Schema :: "Validator \<Rightarrow> FieldSchema list" where
  "Schema v = schemaLoop 0 (fields_v v) (replicate (length (fields_v v)) zeroFieldSchema)"

section \<open>Error texts and accessors (types.go)\<close>

definition ValidationError_Error :: "golib \<Rightarrow> ValidationError \<Rightarrow> string" where
  "ValidationError_Error L e = ''env-validator: field '' @ Quote L (Key_e e) @ '': '' @ Reason e"

definition ValidationErrors_Error :: "golib \<Rightarrow> ValidationErrors \<Rightarrow> string" where
  "ValidationErrors_Error L ve =
     (if length ve = 0 then []
      else foldl (\<lambda>out e. out @ ''  - '' @ ValidationError_Error L e @ [CHR 0x0A])
             (showNat (length ve) @ '' environment variable validation error(s):'' @ [CHR 0x0A])
             ve)"

text \<open>A panic is \<open>Inl\<close> of its message.\<close>

definition notDeclared :: "golib \<Rightarrow> string \<Rightarrow> string" where
  "notDeclared L key = ''env-validator: key '' @ Quote L key @ '' was not declared in the validator''"

definition Result_String :: "golib \<Rightarrow> Result \<Rightarrow> string \<Rightarrow> string + string" where
  "Result_String L r key =
     (case values_r r key of
        None \<Rightarrow> Inl (notDeclared L key)
      | Some v \<Rightarrow>
          (case v of StringVal s \<Rightarrow> Inr s
           | _ \<Rightarrow> Inl (''env-validator: key '' @ Quote L key @ '' is not a string field'')))"

definition Result_Integer :: "golib \<Rightarrow> Result \<Rightarrow> string \<Rightarrow> string + int" where
  "Result_Integer L r key =
     (case values_r r key of
        None \<Rightarrow> Inl (notDeclared L key)
      | Some v \<Rightarrow>
          (case v of Int64Val n \<Rightarrow> Inr n
           | _ \<Rightarrow> Inl (''env-validator: key '' @ Quote L key @ '' is not an integer field'')))"

definition Result_Float :: "golib \<Rightarrow> Result \<Rightarrow> string \<Rightarrow> string + 64 word" where
  "Result_Float L r key =
     (case values_r r key of
        None \<Rightarrow> Inl (notDeclared L key)
      | Some v \<Rightarrow>
          (case v of Float64Val x \<Rightarrow> Inr x
           | _ \<Rightarrow> Inl (''env-validator: key '' @ Quote L key @ '' is not a float field'')))"

definition Result_Boolean :: "golib \<Rightarrow> Result \<Rightarrow> string \<Rightarrow> string + bool" where
  "Result_Boolean L r key =
     (case values_r r key of
        None \<Rightarrow> Inl (notDeclared L key)
      | Some v \<Rightarrow>
          (case v of BoolVal b \<Rightarrow> Inr b
           | _ \<Rightarrow> Inl (''env-validator: key '' @ Quote L key @ '' is not a boolean field'')))"

text \<open>\<open>Duration\<close> returns the stored \<open>interface{}\<close> as it is.\<close>

definition Result_Duration :: "golib \<Rightarrow> Result \<Rightarrow> string \<Rightarrow> string + anyval" where
  "Result_Duration L r key =
     (case values_r r key of
        None \<Rightarrow> Inl (notDeclared L key)
      | Some v \<Rightarrow> Inr v)"

definition Result_Raw :: "Result \<Rightarrow> string \<Rightarrow> anyval option \<times> bool" where
  "Result_Raw r key = (values_r r key, values_r r key \<noteq> None)"

text \<open>The free function of validator.go, built on \<open>Raw\<close>.\<close>

definition DurationResult :: "golib \<Rightarrow> Result \<Rightarrow> string \<Rightarrow> string + int" where
  "DurationResult L r key =
     (case Result_Raw r key of
        (v, ok) \<Rightarrow>
          if \<not> ok then Inl (notDeclared L key)
          else (case v of
                  Some (DurationVal d) \<Rightarrow> Inr d
                | _ \<Rightarrow> Inl (''env-validator: key '' @ Quote L key @ '' is not a duration field'')))"

text \<open>
  A library instance on which the model can be run: it lower-cases nothing beyond ASCII
  and knows one float, one URL and two durations.
\<close>

definition sampleLib :: golib where
  "sampleLib = \<lparr>
     unicodeToLower = (\<lambda>s. s),
     parseFloat = (\<lambda>s. if s = ''0'' then Some 0 else None),
     parseRequestURI = (\<lambda>s. if s = ''https://api.example.com''
        then Some \<lparr>Scheme = ''https'', Host = ''api.example.com''\<rparr>
        else if s = ''/path'' then Some \<lparr>Scheme = [], Host = []\<rparr> else None),
     parseDuration = (\<lambda>s. if s = ''2m'' then Some 120000000000
        else if s = ''5s'' then Some 5000000000 else None),
     quoteEscaped = (\<lambda>s. [CHR 0x22] @ s @ [CHR 0x22])\<rparr>"

section \<open>What one pass records\<close>

text \<open>
  The failures of the declarations in declaration order, one for each declaration that
  fails, and the map after every successful declaration has stored its value.
\<close>

fun failuresOf :: "golib \<Rightarrow> (string \<rightharpoonup> string) \<Rightarrow> Field list \<Rightarrow> ValidationErrors" where
  "failuresOf L env [] = []"
| "failuresOf L env (f # fs) =
     (case validateField L env f of Inl err \<Rightarrow> err # failuresOf L env fs | Inr _ \<Rightarrow> failuresOf L env fs)"

fun storedBy :: "golib \<Rightarrow> (string \<rightharpoonup> string) \<Rightarrow> Field list \<Rightarrow> (string \<rightharpoonup> anyval) \<Rightarrow> (string \<rightharpoonup> anyval)" where
  "storedBy L env [] vals = vals"
| "storedBy L env (f # fs) vals =
     (case validateField L env f of Inl _ \<Rightarrow> storedBy L env fs vals
      | Inr parsed \<Rightarrow> storedBy L env fs (vals(Key f \<mapsto> parsed)))"

section \<open>Sample declarations and contexts\<close>

definition portField :: Field where
  "portField = \<lparr>Key = ''PORT'', Kind = KindInteger, Required = False, Default = ''8080'',
     Description = ''HTTP listen port'', AllowedValues = None\<rparr>"

definition requiredField :: Field where
  "requiredField = \<lparr>Key = ''DATABASE_URL'', Kind = KindURL, Required = True, Default = [],
     Description = ''Postgres connection URL'', AllowedValues = None\<rparr>"

definition firstDecl :: Field where
  "firstDecl = \<lparr>Key = ''A'', Kind = KindString, Required = False, Default = ''first'',
     Description = [], AllowedValues = None\<rparr>"

definition secondDecl :: Field where
  "secondDecl = \<lparr>Key = ''A'', Kind = KindString, Required = False, Default = ''second'',
     Description = [], AllowedValues = Some [''other'']\<rparr>"

definition thirdDecl :: Field where
  "thirdDecl = \<lparr>Key = ''A'', Kind = KindString, Required = False, Default = ''second'',
     Description = [], AllowedValues = None\<rparr>"

definition background :: Context where
  "background = (\<lambda>k. None)"

definition cancelled :: Context where
  "cancelled = (\<lambda>k. Some Canceled)"

section \<open>The loop of ValidateMap\<close>

lemma validateLoop_uncancelled:
  "(\<And>i. i < length fs \<Longrightarrow> ctx (k + i) = None) \<Longrightarrow>
   validateLoop L ctx env k fs errs vals = Inr (errs @ failuresOf L env fs, storedBy L env fs vals)"
proof (induction fs arbitrary: k errs vals)
  case Nil
  then show ?case by simp
next
  case (Cons f fs)
  have here: "ctx k = None" using Cons.prems [of 0] by simp
  have later: "\<And>i. i < length fs \<Longrightarrow> ctx (Suc k + i) = None"
    using Cons.prems [of "Suc _"] by simp
  show ?case
    using here Cons.IH [OF later] by (simp split: sum.splits)
qed

lemma validateLoop_cancelled:
  "i < length fs \<Longrightarrow> ctx (k + i) = Some e \<Longrightarrow> (\<And>j. j < i \<Longrightarrow> ctx (k + j) = None) \<Longrightarrow>
   validateLoop L ctx env k fs errs vals = Inl e"
proof (induction fs arbitrary: k i errs vals)
  case Nil
  then show ?case by simp
next
  case (Cons f fs)
  show ?case
  proof (cases i)
    case 0
    then show ?thesis using Cons.prems by simp
  next
    case (Suc i')
    have here: "ctx k = None" using Cons.prems(3) [of 0] Suc by simp
    have a: "i' < length fs" using Cons.prems(1) Suc by simp
    have b: "ctx (Suc k + i') = Some e" using Cons.prems(2) Suc by simp
    have c: "\<And>j. j < i' \<Longrightarrow> ctx (Suc k + j) = None"
      using Cons.prems(3) [of "Suc _"] Suc by simp
    show ?thesis
      using here Cons.IH [OF a b c] by (simp split: sum.splits)
  qed
qed

lemma failuresOf_empty_iff:
  "failuresOf L env fs = [] \<longleftrightarrow> (\<forall>f \<in> set fs. \<not> isl (validateField L env f))"
  by (induction fs) (auto split: sum.splits)

lemma failuresOf_length:
  "length (failuresOf L env fs) = length (filter (\<lambda>f. isl (validateField L env f)) fs)"
  by (induction fs) (auto split: sum.splits)

lemma failuresOf_eq:
  "failuresOf L env fs = map projl (filter isl (map (validateField L env) fs))"
  by (induction fs) (auto split: sum.splits)

lemma storedBy_dom:
  "\<forall>f \<in> set fs. \<not> isl (validateField L env f) \<Longrightarrow>
   dom (storedBy L env fs vals) = dom vals \<union> Key ` set fs"
  by (induction fs arbitrary: vals) (auto split: sum.splits)

lemma ValidateMap_uncancelled:
  assumes "\<And>k. k < length (fields_v v) \<Longrightarrow> ctx k = None"
  shows "ValidateMap L v ctx env =
     (if failuresOf L env (fields_v v) = []
      then (Some \<lparr>values_r = storedBy L env (fields_v v) Map.empty\<rparr>, None)
      else (None, Some (ValidationErrs (failuresOf L env (fields_v v)))))"
proof -
  have "validateLoop L ctx env 0 (fields_v v) [] Map.empty =
      Inr ([] @ failuresOf L env (fields_v v), storedBy L env (fields_v v) Map.empty)"
    by (rule validateLoop_uncancelled) (simp add: assms)
  then show ?thesis by (simp add: ValidateMap_def)
qed

lemma ValidateMap_never_both:
  "(fst (ValidateMap L v ctx env) = None) \<noteq> (snd (ValidateMap L v ctx env) = None)"
  by (simp add: ValidateMap_def split: sum.splits prod.splits)

section \<open>Claims\<close>

text \<open>
  C1. For a context that is not cancelled during the pass, \<open>ValidateMap\<close> evaluates every
  declared field whatever failed before: it returns a \<open>ValidationErrors\<close> batch if and only
  if at least one field failed, the batch holding the failure of every failing declaration
  in declaration order; otherwise it returns a \<open>Result\<close> whose keys are exactly the declared
  keys. For every context, exactly one of the two returned values is nil.
\<close>

theorem C1_collect_all:
  assumes live: "\<forall>k < length (fields_v v). ctx k = None"
  shows "((\<exists>errs. ValidateMap L v ctx env = (None, Some (ValidationErrs errs)))
            \<longleftrightarrow> (\<exists>f \<in> set (fields_v v). isl (validateField L env f)))
       \<and> ((\<exists>f \<in> set (fields_v v). isl (validateField L env f)) \<longrightarrow>
            ValidateMap L v ctx env =
              (None, Some (ValidationErrs (map projl (filter isl (map (validateField L env) (fields_v v)))))))
       \<and> (\<not> (\<exists>f \<in> set (fields_v v). isl (validateField L env f)) \<longrightarrow>
            (\<exists>r. ValidateMap L v ctx env = (Some r, None)
               \<and> dom (values_r r) = Key ` set (fields_v v)))
       \<and> ((fst (ValidateMap L v ctx env) = None) \<noteq> (snd (ValidateMap L v ctx env) = None))"
proof -
  have vm: "ValidateMap L v ctx env =
     (if failuresOf L env (fields_v v) = []
      then (Some \<lparr>values_r = storedBy L env (fields_v v) Map.empty\<rparr>, None)
      else (None, Some (ValidationErrs (failuresOf L env (fields_v v)))))"
    using live by (intro ValidateMap_uncancelled) simp
  have fails: "failuresOf L env (fields_v v) \<noteq> [] \<longleftrightarrow> (\<exists>f \<in> set (fields_v v). isl (validateField L env f))"
    by (simp add: failuresOf_empty_iff)
  have a: "(\<exists>errs. ValidateMap L v ctx env = (None, Some (ValidationErrs errs)))
            \<longleftrightarrow> (\<exists>f \<in> set (fields_v v). isl (validateField L env f))"
    using fails by (auto simp: vm)
  have b: "(\<exists>f \<in> set (fields_v v). isl (validateField L env f)) \<longrightarrow>
            ValidateMap L v ctx env =
              (None, Some (ValidationErrs (map projl (filter isl (map (validateField L env) (fields_v v))))))"
    using fails by (auto simp: vm failuresOf_eq)
  have c: "\<not> (\<exists>f \<in> set (fields_v v). isl (validateField L env f)) \<longrightarrow>
            (\<exists>r. ValidateMap L v ctx env = (Some r, None)
               \<and> dom (values_r r) = Key ` set (fields_v v))"
  proof
    assume ok: "\<not> (\<exists>f \<in> set (fields_v v). isl (validateField L env f))"
    then have none: "failuresOf L env (fields_v v) = []" using fails by blast
    have "dom (storedBy L env (fields_v v) Map.empty) = dom (Map.empty :: string \<rightharpoonup> anyval) \<union> Key ` set (fields_v v)"
      using ok by (intro storedBy_dom) blast
    then show "\<exists>r. ValidateMap L v ctx env = (Some r, None) \<and> dom (values_r r) = Key ` set (fields_v v)"
      using none by (simp add: vm)
  qed
  show ?thesis by (intro conjI a b c ValidateMap_never_both)
qed

theorem C1_collect_all_witness:
  "ValidateMap sampleLib (New [requiredField, portField, requiredField]) background Map.empty =
     (None, Some (ValidationErrs
        [\<lparr>Key_e = ''DATABASE_URL'', Reason = ''required variable is missing or empty''\<rparr>,
         \<lparr>Key_e = ''DATABASE_URL'', Reason = ''required variable is missing or empty''\<rparr>]))
   \<and> (\<exists>r. ValidateMap sampleLib (New [portField]) background Map.empty = (Some r, None)
         \<and> dom (values_r r) = {''PORT''})"
proof -
  have rq: "validateField sampleLib Map.empty requiredField =
      Inl \<lparr>Key_e = ''DATABASE_URL'', Reason = ''required variable is missing or empty''\<rparr>"
    by (simp add: validateField_def resolveRaw_def requiredField_def)
  have pt: "validateField sampleLib Map.empty portField = Inr (Int64Val 8080)"
  proof -
    have t: "TrimSpace ''8080'' = ''8080''" by code_simp
    have p: "ParseInt ''8080'' = Some 8080"
      by (simp add: ParseInt_def ParseUint_def digitVal_def)
    show ?thesis
      by (simp add: validateField_def resolveRaw_def checkRaw_def parseValue_def portField_def
          sliceOf_def KindString_def KindInteger_def t p)
  qed
  have one: "ValidateMap sampleLib (New [requiredField, portField, requiredField]) background Map.empty =
     (None, Some (ValidationErrs
        [\<lparr>Key_e = ''DATABASE_URL'', Reason = ''required variable is missing or empty''\<rparr>,
         \<lparr>Key_e = ''DATABASE_URL'', Reason = ''required variable is missing or empty''\<rparr>]))"
    using C1_collect_all [of "New [requiredField, portField, requiredField]" background sampleLib Map.empty]
    by (simp add: New_def background_def rq pt)
  have two: "\<exists>r. ValidateMap sampleLib (New [portField]) background Map.empty = (Some r, None)
         \<and> dom (values_r r) = {''PORT''}"
    using C1_collect_all [of "New [portField]" background sampleLib Map.empty]
    by (simp add: New_def background_def pt) (simp add: portField_def)
  show ?thesis by (rule conjI [OF one two])
qed


lemma TrimSpace_9090: "TrimSpace ''9090'' = ''9090''"
  by code_simp

lemma TrimSpace_8080: "TrimSpace ''8080'' = ''8080''"
  by code_simp

lemma ParseInt_9090: "ParseInt ''9090'' = Some 9090"
  by (simp add: ParseInt_def ParseUint_def digitVal_def)

lemma ParseInt_8080: "ParseInt ''8080'' = Some 8080"
  by (simp add: ParseInt_def ParseUint_def digitVal_def)

text \<open>
  C2. The raw value of a declared field. A key that the input map holds with a non-empty
  string gives that string, whatever the default. A key that is absent or maps to the empty
  string gives, for a required field with an empty default, the one failure
  ``required variable is missing or empty'', after which the loop goes on to the next
  field with nothing else recorded; in every other case the default is the raw value,
  required or not, empty or not.
\<close>

theorem C2_raw_value:
  "(\<forall>x. env (Key f) = Some x \<and> x \<noteq> [] \<longrightarrow>
       resolveRaw env f = Inr x
     \<and> validateField L env f = checkRaw L f (if Kind f = [] then KindString else Kind f) x)
   \<and> (env (Key f) = None \<or> env (Key f) = Some [] \<longrightarrow>
        (Required f \<and> Default f = [] \<longrightarrow>
            validateField L env f =
              Inl \<lparr>Key_e = Key f, Reason = ''required variable is missing or empty''\<rparr>
          \<and> (ctx k = None \<longrightarrow>
               validateLoop L ctx env k (f # fs) errs vals =
               validateLoop L ctx env (Suc k) fs
                 (errs @ [\<lparr>Key_e = Key f, Reason = ''required variable is missing or empty''\<rparr>]) vals))
      \<and> (\<not> (Required f \<and> Default f = []) \<longrightarrow>
            resolveRaw env f = Inr (Default f)
          \<and> validateField L env f =
              checkRaw L f (if Kind f = [] then KindString else Kind f) (Default f)))"
proof -
  have provided: "\<forall>x. env (Key f) = Some x \<and> x \<noteq> [] \<longrightarrow>
       resolveRaw env f = Inr x
     \<and> validateField L env f = checkRaw L f (if Kind f = [] then KindString else Kind f) x"
    by (simp add: resolveRaw_def validateField_def)
  have missing: "env (Key f) = None \<or> env (Key f) = Some [] \<longrightarrow>
        (Required f \<and> Default f = [] \<longrightarrow>
            validateField L env f =
              Inl \<lparr>Key_e = Key f, Reason = ''required variable is missing or empty''\<rparr>
          \<and> (ctx k = None \<longrightarrow>
               validateLoop L ctx env k (f # fs) errs vals =
               validateLoop L ctx env (Suc k) fs
                 (errs @ [\<lparr>Key_e = Key f, Reason = ''required variable is missing or empty''\<rparr>]) vals))
      \<and> (\<not> (Required f \<and> Default f = []) \<longrightarrow>
            resolveRaw env f = Inr (Default f)
          \<and> validateField L env f =
              checkRaw L f (if Kind f = [] then KindString else Kind f) (Default f))"
  proof
    assume "env (Key f) = None \<or> env (Key f) = Some []"
    then have unset: "\<not> (env (Key f) \<noteq> None) \<or> (case env (Key f) of None \<Rightarrow> [] | Some v \<Rightarrow> v) = []"
      by auto
    have r: "resolveRaw env f =
       (if Required f \<and> Default f = []
        then Inl \<lparr>Key_e = Key f, Reason = ''required variable is missing or empty''\<rparr>
        else Inr (Default f))"
      using unset unfolding resolveRaw_def Let_def by simp
    show "(Required f \<and> Default f = [] \<longrightarrow>
            validateField L env f =
              Inl \<lparr>Key_e = Key f, Reason = ''required variable is missing or empty''\<rparr>
          \<and> (ctx k = None \<longrightarrow>
               validateLoop L ctx env k (f # fs) errs vals =
               validateLoop L ctx env (Suc k) fs
                 (errs @ [\<lparr>Key_e = Key f, Reason = ''required variable is missing or empty''\<rparr>]) vals))
      \<and> (\<not> (Required f \<and> Default f = []) \<longrightarrow>
            resolveRaw env f = Inr (Default f)
          \<and> validateField L env f =
              checkRaw L f (if Kind f = [] then KindString else Kind f) (Default f))"
      by (simp add: r validateField_def)
  qed
  show ?thesis by (rule conjI [OF provided missing])
qed

theorem C2_raw_value_witness:
  "validateField sampleLib [''PORT'' \<mapsto> ''9090''] portField = Inr (Int64Val 9090)
   \<and> validateField sampleLib [''PORT'' \<mapsto> []] portField = Inr (Int64Val 8080)
   \<and> validateField sampleLib Map.empty portField = Inr (Int64Val 8080)
   \<and> validateField sampleLib Map.empty requiredField =
       Inl \<lparr>Key_e = ''DATABASE_URL'', Reason = ''required variable is missing or empty''\<rparr>"
proof -
  have c9090: "checkRaw sampleLib portField KindInteger ''9090'' = Inr (Int64Val 9090)"
    by (simp add: checkRaw_def parseValue_def portField_def sliceOf_def KindString_def
        KindInteger_def TrimSpace_9090 ParseInt_9090)
  have c8080: "checkRaw sampleLib portField KindInteger ''8080'' = Inr (Int64Val 8080)"
    by (simp add: checkRaw_def parseValue_def portField_def sliceOf_def KindString_def
        KindInteger_def TrimSpace_8080 ParseInt_8080)
  have k: "(if Kind portField = [] then KindString else Kind portField) = KindInteger"
    by (simp add: portField_def KindInteger_def)
  have d: "Default portField = ''8080''" "Key portField = ''PORT''" "\<not> Required portField"
    by (simp_all add: portField_def)
  have one: "validateField sampleLib [''PORT'' \<mapsto> ''9090''] portField = Inr (Int64Val 9090)"
    using C2_raw_value [of "[''PORT'' \<mapsto> ''9090'']" portField sampleLib]
    by (simp add: k d c9090)
  have two: "validateField sampleLib [''PORT'' \<mapsto> []] portField = Inr (Int64Val 8080)"
    using C2_raw_value [of "[''PORT'' \<mapsto> []]" portField sampleLib]
    by (simp add: k d c8080)
  have three: "validateField sampleLib Map.empty portField = Inr (Int64Val 8080)"
    using C2_raw_value [of Map.empty portField sampleLib]
    by (simp add: k d c8080)
  have four: "validateField sampleLib Map.empty requiredField =
       Inl \<lparr>Key_e = ''DATABASE_URL'', Reason = ''required variable is missing or empty''\<rparr>"
    using C2_raw_value [of Map.empty requiredField sampleLib]
    by (simp add: requiredField_def)
  show ?thesis by (intro conjI one two three four)
qed

end
